theory Spec2Isabelle
  imports Main "HOL-Library.State_Monad"
begin

section \<open>Constraint.h: the constraints of the type checker\<close>

subsection \<open>Kinds and classifications\<close>

text \<open>
  \<^verbatim>\<open>enum class ConstraintKind : char\<close>, in declaration order. The two enumerations
  are scoped in C++ and share the names \<open>Conjunction\<close> and \<open>Disjunction\<close>; here they are
  always written with the name of their type in front, \<open>ConstraintKind.Conjunction\<close>
  and \<open>ConstraintClassification.Conjunction\<close>.
\<close>

datatype ConstraintKind =
    Bind
  | Equal
  | TrivialSubtype
  | Subtype
  | Conversion
  | Construction
  | ConformsTo
  | ApplicableFunction
  | BindOverload
  | ValueMember
  | TypeMember
  | Archetype
  | Class
  | DynamicLookupValue
  | Conjunction
  | Disjunction

text \<open>\<^verbatim>\<open>enum class ConstraintClassification : char\<close>.\<close>

datatype ConstraintClassification =
    Relational
  | Member
  | TypeProperty
  | Conjunction
  | Disjunction

subsection \<open>The class Constraint\<close>

text \<open>
  A pointer is an address or null: \<open>None\<close> is \<^verbatim>\<open>nullptr\<close>. It stands for
  \<^verbatim>\<open>ConstraintLocator *\<close> and for the \<^verbatim>\<open>Constraint *\<close> elements of an
  \<^verbatim>\<open>ArrayRef<Constraint *>\<close>, which is a list of such pointers.
\<close>

type_synonym ptr = "nat option"

text \<open>
  The anonymous union of the class. Each constructor is one member of the union and
  records which member the constructor of the class initialised (the active member).
  The classes \<^verbatim>\<open>Type\<close>, \<^verbatim>\<open>Identifier\<close> and \<^verbatim>\<open>OverloadChoice\<close> are declared in other
  headers; they are the type parameters \<open>'ty\<close>, \<open>'id\<close> and \<open>'oc\<close>.

  \<^item> \<open>Types First Second Member\<close> is \<^verbatim>\<open>struct { Type First; Type Second; Identifier Member; } Types\<close>;
  \<^item> \<open>Nested cs\<close> is \<^verbatim>\<open>ArrayRef<Constraint *> Nested\<close>;
  \<^item> \<open>Overload First Choice\<close> is \<^verbatim>\<open>struct { Type First; OverloadChoice Choice; } Overload\<close>.
\<close>

datatype ('ty, 'id, 'oc) storage =
    Types 'ty 'ty 'id
  | Nested "ptr list"
  | Overload 'ty 'oc

record ('ty, 'id, 'oc) Constraint =
  Kind :: ConstraintKind
  payload :: "('ty, 'id, 'oc) storage"
  Locator :: ptr

text \<open>
  How a member function can end without a value, in a build with assertions enabled:
  \<^item> \<open>AssertionFailed\<close>: an \<^verbatim>\<open>assert\<close> of the function is false and the program aborts;
  \<^item> \<open>InactiveUnionMember\<close>: every assertion passed and the function then reads a
    member of the union that is not the active one. C++ gives this read no meaning;
    it is kept apart from a failed assertion, which it is not.
  The structs \<^verbatim>\<open>Types\<close> and \<^verbatim>\<open>Overload\<close> both begin with \<^verbatim>\<open>Type First\<close>: this common first
  field may be read through either of the two, whichever of them is active, and the
  read gives the first type stored.
\<close>

datatype failure = AssertionFailed | InactiveUnionMember

text \<open>Reading the fields of the union members.\<close>

definition Types_First :: "('ty, 'id, 'oc) storage \<Rightarrow> failure + 'ty" where
  "Types_First u = (case u of Types first second member \<Rightarrow> Inr first
                     | Nested cs \<Rightarrow> Inl InactiveUnionMember
                     | Overload first choice \<Rightarrow> Inr first)"

definition Types_Second :: "('ty, 'id, 'oc) storage \<Rightarrow> failure + 'ty" where
  "Types_Second u = (case u of Types first second member \<Rightarrow> Inr second
                      | Nested cs \<Rightarrow> Inl InactiveUnionMember
                      | Overload first choice \<Rightarrow> Inl InactiveUnionMember)"

definition Types_Member :: "('ty, 'id, 'oc) storage \<Rightarrow> failure + 'id" where
  "Types_Member u = (case u of Types first second member \<Rightarrow> Inr member
                      | Nested cs \<Rightarrow> Inl InactiveUnionMember
                      | Overload first choice \<Rightarrow> Inl InactiveUnionMember)"

definition Nested_view :: "('ty, 'id, 'oc) storage \<Rightarrow> failure + ptr list" where
  "Nested_view u = (case u of Types first second member \<Rightarrow> Inl InactiveUnionMember
                     | Nested cs \<Rightarrow> Inr cs
                     | Overload first choice \<Rightarrow> Inl InactiveUnionMember)"

definition Overload_First :: "('ty, 'id, 'oc) storage \<Rightarrow> failure + 'ty" where
  "Overload_First u = (case u of Types first second member \<Rightarrow> Inr first
                        | Nested cs \<Rightarrow> Inl InactiveUnionMember
                        | Overload first choice \<Rightarrow> Inr first)"

definition Overload_Choice :: "('ty, 'id, 'oc) storage \<Rightarrow> failure + 'oc" where
  "Overload_Choice u = (case u of Types first second member \<Rightarrow> Inl InactiveUnionMember
                         | Nested cs \<Rightarrow> Inl InactiveUnionMember
                         | Overload first choice \<Rightarrow> Inr choice)"

subsection \<open>Constructors\<close>

text \<open>
  The private constructor of group constraints:
  \<^verbatim>\<open>Constraint(ConstraintKind kind, ArrayRef<Constraint *> disjunction, ConstraintLocator *locator)
    : Kind(kind), Nested(disjunction), Locator(locator) {
    assert(kind == ConstraintKind::Conjunction || kind == ConstraintKind::Disjunction); }\<close>
\<close>

definition Constraint_group ::
  "ConstraintKind \<Rightarrow> ptr list \<Rightarrow> ptr \<Rightarrow> failure + ('ty, 'id, 'oc) Constraint" where
  "Constraint_group kind disjunction locator =
     (if kind = ConstraintKind.Conjunction \<or> kind = ConstraintKind.Disjunction
      then Inr \<lparr>Kind = kind, payload = Nested disjunction, Locator = locator\<rparr>
      else Inl AssertionFailed)"

text \<open>
  The constructor of overload-binding constraints; its body is empty:
  \<^verbatim>\<open>Constraint(Type type, OverloadChoice choice, ConstraintLocator *locator)
    : Kind(ConstraintKind::BindOverload), Overload{type, choice}, Locator(locator) { }\<close>
\<close>

definition Constraint_overload ::
  "'ty \<Rightarrow> 'oc \<Rightarrow> ptr \<Rightarrow> ('ty, 'id, 'oc) Constraint" where
  "Constraint_overload type choice locator =
     \<lparr>Kind = BindOverload, payload = Overload type choice, Locator = locator\<rparr>"

subsection \<open>Accessors\<close>

text \<open>\<^verbatim>\<open>ConstraintKind getKind() const { return Kind; }\<close>\<close>

definition getKind :: "('ty, 'id, 'oc) Constraint \<Rightarrow> ConstraintKind" where
  "getKind this = Kind this"

text \<open>
  \<^verbatim>\<open>getClassification()\<close>: the switch over \<open>Kind\<close>, case by case as it is written.
\<close>

definition getClassification :: "('ty, 'id, 'oc) Constraint \<Rightarrow> ConstraintClassification" where
  "getClassification this =
     (case Kind this of
        Bind \<Rightarrow> Relational
      | Equal \<Rightarrow> Relational
      | TrivialSubtype \<Rightarrow> Relational
      | Subtype \<Rightarrow> Relational
      | Conversion \<Rightarrow> Relational
      | Construction \<Rightarrow> Relational
      | ConformsTo \<Rightarrow> Relational
      | ApplicableFunction \<Rightarrow> Relational
      | BindOverload \<Rightarrow> Relational
      | ValueMember \<Rightarrow> Member
      | TypeMember \<Rightarrow> Member
      | Archetype \<Rightarrow> TypeProperty
      | Class \<Rightarrow> TypeProperty
      | DynamicLookupValue \<Rightarrow> TypeProperty
      | ConstraintKind.Conjunction \<Rightarrow> ConstraintClassification.Disjunction
      | ConstraintKind.Disjunction \<Rightarrow> ConstraintClassification.Disjunction)"

text \<open>
  \<^verbatim>\<open>Type getFirstType() const {
    assert(getKind() != ConstraintKind::Disjunction && getKind() != ConstraintKind::Conjunction);
    if (getKind() == ConstraintKind::BindOverload) return Overload.First;
    return Types.First; }\<close>
\<close>

definition getFirstType :: "('ty, 'id, 'oc) Constraint \<Rightarrow> failure + 'ty" where
  "getFirstType this =
     (if getKind this \<noteq> ConstraintKind.Disjunction \<and> getKind this \<noteq> ConstraintKind.Conjunction
      then (if getKind this = BindOverload then Overload_First (payload this)
            else Types_First (payload this))
      else Inl AssertionFailed)"

text \<open>
  \<^verbatim>\<open>Type getSecondType() const {
    assert(getKind() != ConstraintKind::Disjunction && getKind() != ConstraintKind::Conjunction);
    return Types.Second; }\<close>
\<close>

definition getSecondType :: "('ty, 'id, 'oc) Constraint \<Rightarrow> failure + 'ty" where
  "getSecondType this =
     (if getKind this \<noteq> ConstraintKind.Disjunction \<and> getKind this \<noteq> ConstraintKind.Conjunction
      then Types_Second (payload this)
      else Inl AssertionFailed)"

text \<open>
  \<^verbatim>\<open>Identifier getMember() const {
    assert(Kind == ConstraintKind::ValueMember || Kind == ConstraintKind::TypeMember);
    return Types.Member; }\<close>
\<close>

definition getMember :: "('ty, 'id, 'oc) Constraint \<Rightarrow> failure + 'id" where
  "getMember this =
     (if Kind this = ValueMember \<or> Kind this = TypeMember
      then Types_Member (payload this)
      else Inl AssertionFailed)"

text \<open>
  \<^verbatim>\<open>static bool hasMember(ConstraintKind kind) {
    return kind == ConstraintKind::ValueMember || kind == ConstraintKind::TypeMember; }\<close>
\<close>

definition hasMember :: "ConstraintKind \<Rightarrow> bool" where
  "hasMember kind = (kind = ValueMember \<or> kind = TypeMember)"

text \<open>
  \<^verbatim>\<open>ArrayRef<Constraint *> getNestedConstraints() const {
    assert(Kind == ConstraintKind::Conjunction || Kind == ConstraintKind::Disjunction);
    return Nested; }\<close>
\<close>

definition getNestedConstraints :: "('ty, 'id, 'oc) Constraint \<Rightarrow> failure + ptr list" where
  "getNestedConstraints this =
     (if Kind this = ConstraintKind.Conjunction \<or> Kind this = ConstraintKind.Disjunction
      then Nested_view (payload this)
      else Inl AssertionFailed)"

text \<open>
  \<^verbatim>\<open>OverloadChoice getOverloadChoice() const {
    assert(Kind == ConstraintKind::BindOverload);
    return Overload.Choice; }\<close>
\<close>

definition getOverloadChoice :: "('ty, 'id, 'oc) Constraint \<Rightarrow> failure + 'oc" where
  "getOverloadChoice this =
     (if Kind this = BindOverload then Overload_Choice (payload this)
      else Inl AssertionFailed)"

text \<open>\<^verbatim>\<open>ConstraintLocator *getLocator() const { return Locator; }\<close>\<close>

definition getLocator :: "('ty, 'id, 'oc) Constraint \<Rightarrow> ptr" where
  "getLocator this = Locator this"

subsection \<open>The accessors as calls on an object\<close>

text \<open>
  The bodies of the accessors once more, statement by statement, as programs that run
  on the object \<^verbatim>\<open>*this\<close>: a call takes the object before the call and gives
  the value returned together with the object after the call. The body is a program of
  the state monad, run by \<open>run_state\<close>; \<open>State\<close> makes a call a step of such a program.
  \<open>State_Monad.get\<close> reads the object, \<open>State_Monad.set\<close> and \<open>State_Monad.update\<close>
  would assign to it; a call of another member function is a step of the program and
  hands its object on to the next step. A failed assertion ends the call with
  \<open>Inl AssertionFailed\<close>.

  \<^verbatim>\<open>ConstraintKind getKind() const { return Kind; }\<close>
\<close>

definition getKind_call ::
  "('ty, 'id, 'oc) Constraint
    \<Rightarrow> ConstraintKind \<times> ('ty, 'id, 'oc) Constraint" where
  "getKind_call = run_state (do {
     this \<leftarrow> State_Monad.get;
     State_Monad.return (Kind this)
   })"

text \<open>\<^verbatim>\<open>getClassification()\<close>: \<^verbatim>\<open>switch (Kind) { case ...: return ...; }\<close>\<close>

definition getClassification_call ::
  "('ty, 'id, 'oc) Constraint
    \<Rightarrow> ConstraintClassification \<times> ('ty, 'id, 'oc) Constraint" where
  "getClassification_call = run_state (do {
     this \<leftarrow> State_Monad.get;
     State_Monad.return
       (case Kind this of
          Bind \<Rightarrow> Relational
        | Equal \<Rightarrow> Relational
        | TrivialSubtype \<Rightarrow> Relational
        | Subtype \<Rightarrow> Relational
        | Conversion \<Rightarrow> Relational
        | Construction \<Rightarrow> Relational
        | ConformsTo \<Rightarrow> Relational
        | ApplicableFunction \<Rightarrow> Relational
        | BindOverload \<Rightarrow> Relational
        | ValueMember \<Rightarrow> Member
        | TypeMember \<Rightarrow> Member
        | Archetype \<Rightarrow> TypeProperty
        | Class \<Rightarrow> TypeProperty
        | DynamicLookupValue \<Rightarrow> TypeProperty
        | ConstraintKind.Conjunction \<Rightarrow> ConstraintClassification.Disjunction
        | ConstraintKind.Disjunction \<Rightarrow> ConstraintClassification.Disjunction)
   })"

text \<open>
  The condition \<^verbatim>\<open>getKind() != ConstraintKind::Disjunction && getKind() !=
  ConstraintKind::Conjunction\<close> asserted by \<^verbatim>\<open>getFirstType()\<close> and \<^verbatim>\<open>getSecondType()\<close>: two
  calls of \<^verbatim>\<open>getKind()\<close>, the second one only when the first comparison holds.
\<close>

definition not_a_group_call ::
  "('ty, 'id, 'oc) Constraint
    \<Rightarrow> bool \<times> ('ty, 'id, 'oc) Constraint" where
  "not_a_group_call = run_state (do {
     kind \<leftarrow> State getKind_call;
     if kind \<noteq> ConstraintKind.Disjunction
     then do {
       kind' \<leftarrow> State getKind_call;
       State_Monad.return (kind' \<noteq> ConstraintKind.Conjunction)
     }
     else State_Monad.return False
   })"

text \<open>
  \<^verbatim>\<open>getFirstType()\<close>: the assertion, then
  \<^verbatim>\<open>if (getKind() == ConstraintKind::BindOverload) return Overload.First; return Types.First;\<close>
\<close>

definition getFirstType_call ::
  "('ty, 'id, 'oc) Constraint
    \<Rightarrow> (failure + 'ty) \<times> ('ty, 'id, 'oc) Constraint" where
  "getFirstType_call = run_state (do {
     asserted \<leftarrow> State not_a_group_call;
     if asserted
     then do {
       kind \<leftarrow> State getKind_call;
       if kind = BindOverload
       then do {
         this \<leftarrow> State_Monad.get;
         State_Monad.return (Overload_First (payload this))
       }
       else do {
         this \<leftarrow> State_Monad.get;
         State_Monad.return (Types_First (payload this))
       }
     }
     else State_Monad.return (Inl AssertionFailed)
   })"

text \<open>\<^verbatim>\<open>getSecondType()\<close>: the assertion, then \<^verbatim>\<open>return Types.Second;\<close>\<close>

definition getSecondType_call ::
  "('ty, 'id, 'oc) Constraint
    \<Rightarrow> (failure + 'ty) \<times> ('ty, 'id, 'oc) Constraint" where
  "getSecondType_call = run_state (do {
     asserted \<leftarrow> State not_a_group_call;
     if asserted
     then do {
       this \<leftarrow> State_Monad.get;
       State_Monad.return (Types_Second (payload this))
     }
     else State_Monad.return (Inl AssertionFailed)
   })"

text \<open>
  \<^verbatim>\<open>getMember()\<close>:
  \<^verbatim>\<open>assert(Kind == ConstraintKind::ValueMember || Kind == ConstraintKind::TypeMember);
  return Types.Member;\<close>
\<close>

definition getMember_call ::
  "('ty, 'id, 'oc) Constraint
    \<Rightarrow> (failure + 'id) \<times> ('ty, 'id, 'oc) Constraint" where
  "getMember_call = run_state (do {
     this \<leftarrow> State_Monad.get;
     if Kind this = ValueMember \<or> Kind this = TypeMember
     then do {
       this' \<leftarrow> State_Monad.get;
       State_Monad.return (Types_Member (payload this'))
     }
     else State_Monad.return (Inl AssertionFailed)
   })"

text \<open>
  \<^verbatim>\<open>getNestedConstraints()\<close>:
  \<^verbatim>\<open>assert(Kind == ConstraintKind::Conjunction || Kind == ConstraintKind::Disjunction);
  return Nested;\<close>
\<close>

definition getNestedConstraints_call ::
  "('ty, 'id, 'oc) Constraint
    \<Rightarrow> (failure + ptr list) \<times> ('ty, 'id, 'oc) Constraint" where
  "getNestedConstraints_call = run_state (do {
     this \<leftarrow> State_Monad.get;
     if Kind this = ConstraintKind.Conjunction \<or> Kind this = ConstraintKind.Disjunction
     then do {
       this' \<leftarrow> State_Monad.get;
       State_Monad.return (Nested_view (payload this'))
     }
     else State_Monad.return (Inl AssertionFailed)
   })"

text \<open>
  \<^verbatim>\<open>getOverloadChoice()\<close>:
  \<^verbatim>\<open>assert(Kind == ConstraintKind::BindOverload); return Overload.Choice;\<close>
\<close>

definition getOverloadChoice_call ::
  "('ty, 'id, 'oc) Constraint
    \<Rightarrow> (failure + 'oc) \<times> ('ty, 'id, 'oc) Constraint" where
  "getOverloadChoice_call = run_state (do {
     this \<leftarrow> State_Monad.get;
     if Kind this = BindOverload
     then do {
       this' \<leftarrow> State_Monad.get;
       State_Monad.return (Overload_Choice (payload this'))
     }
     else State_Monad.return (Inl AssertionFailed)
   })"

text \<open>\<^verbatim>\<open>ConstraintLocator *getLocator() const { return Locator; }\<close>\<close>

definition getLocator_call ::
  "('ty, 'id, 'oc) Constraint
    \<Rightarrow> ptr \<times> ('ty, 'id, 'oc) Constraint" where
  "getLocator_call = run_state (do {
     this \<leftarrow> State_Monad.get;
     State_Monad.return (Locator this)
   })"

text \<open>
  Two calls in a row on the same object: the two values returned and the object after
  the second call.
\<close>

definition twice :: "('s \<Rightarrow> 'a \<times> 's) \<Rightarrow> 's \<Rightarrow> ('a \<times> 'a) \<times> 's" where
  "twice call = run_state (do {
     first \<leftarrow> State call;
     second \<leftarrow> State call;
     State_Monad.return (first, second)
   })"

subsection \<open>The classification table of the specification\<close>

text \<open>
  Section 4.1 of the specification, row by row; \<open>getClassification\<close> above is the code,
  \<open>classify_spec\<close> is the table it is compared with.
\<close>

definition classify_spec :: "ConstraintKind \<Rightarrow> ConstraintClassification" where
  "classify_spec kind =
     (case kind of
        Bind \<Rightarrow> Relational
      | Equal \<Rightarrow> Relational
      | TrivialSubtype \<Rightarrow> Relational
      | Subtype \<Rightarrow> Relational
      | Conversion \<Rightarrow> Relational
      | Construction \<Rightarrow> Relational
      | ConformsTo \<Rightarrow> Relational
      | ApplicableFunction \<Rightarrow> Relational
      | BindOverload \<Rightarrow> Relational
      | ValueMember \<Rightarrow> Member
      | TypeMember \<Rightarrow> Member
      | Archetype \<Rightarrow> TypeProperty
      | Class \<Rightarrow> TypeProperty
      | DynamicLookupValue \<Rightarrow> TypeProperty
      | ConstraintKind.Conjunction \<Rightarrow> ConstraintClassification.Conjunction
      | ConstraintKind.Disjunction \<Rightarrow> ConstraintClassification.Disjunction)"

subsection \<open>Factories of group constraints\<close>

text \<open>
  Modelled from the spec: \<^verbatim>\<open>Constraint::createConjunction\<close> and
  \<^verbatim>\<open>Constraint::createDisjunction\<close> are only declared in \<^verbatim>\<open>Constraint.h\<close>; the header
  holds no body for them. Section 4.2: ``allocates a group constraint over an
  already-allocated, non-empty child list; fails (assertion) on an empty list'', and
  section 8: ``with \<open>\<ge>\<close>1 child must succeed and \<^verbatim>\<open>getNestedConstraints()\<close> returns exactly
  those children in order''. The group constraint is built by the private constructor
  \<open>Constraint_group\<close>; the placement in the arena of the constraint system (the
  \<^verbatim>\<open>ConstraintSystem &cs\<close> parameter) is left out, and the result is the constraint
  rather than its address.
\<close>

definition createConjunction :: "ptr list \<Rightarrow> ptr \<Rightarrow> failure + ('ty, 'id, 'oc) Constraint" where
  "createConjunction constraints locator =
     (if constraints = [] then Inl AssertionFailed
      else Constraint_group ConstraintKind.Conjunction constraints locator)"

text \<open>
  Modelled from the spec: \<^verbatim>\<open>Constraint::createDisjunction\<close>, as \<open>createConjunction\<close>
  above, from the same sentences of sections 4.2 and 8.
\<close>

definition createDisjunction :: "ptr list \<Rightarrow> ptr \<Rightarrow> failure + ('ty, 'id, 'oc) Constraint" where
  "createDisjunction constraints locator =
     (if constraints = [] then Inl AssertionFailed
      else Constraint_group ConstraintKind.Disjunction constraints locator)"

section \<open>Map.swift.gyb: lazily mapping over a sequence\<close>

text \<open>
  Modelled from the spec: \<^verbatim>\<open>Optional.map\<close> belongs to the standard library and is not
  in \<^verbatim>\<open>Map.swift.gyb\<close>. The iterator is documented there to produce ``each element by
  passing the output of the \<^verbatim>\<open>Base\<close> \<^verbatim>\<open>IteratorProtocol\<close> through a transform function'',
  and the specification calls it a wrapper that lifts a transform function over a
  sequence: \<^verbatim>\<open>nil\<close> stays \<^verbatim>\<open>nil\<close> and \<^verbatim>\<open>.some(y)\<close> becomes \<^verbatim>\<open>.some(transform(y))\<close>.
  Swift's \<^verbatim>\<open>Optional\<close> is \<open>option\<close>.
\<close>

definition Optional_map :: "('a \<Rightarrow> 'e) \<Rightarrow> 'a option \<Rightarrow> 'e option" where
  "Optional_map transform self = (case self of None \<Rightarrow> None | Some y \<Rightarrow> Some (transform y))"

text \<open>
  \<^verbatim>\<open>struct LazyMapIterator<Base : IteratorProtocol, Element>\<close> with its stored properties
  \<^verbatim>\<open>_base\<close> (here \<open>iter_base\<close>) and \<^verbatim>\<open>_transform\<close> (here \<open>iter_transform\<close>); \<open>'b\<close> is
  \<^verbatim>\<open>Base\<close>, \<open>'a\<close> is \<^verbatim>\<open>Base.Element\<close> and \<open>'e\<close> is \<^verbatim>\<open>Element\<close>.
\<close>

record ('b, 'a, 'e) LazyMapIterator =
  iter_base :: 'b
  iter_transform :: "'a \<Rightarrow> 'e"

text \<open>
  \<^verbatim>\<open>struct LazyMapSequence<Base : Sequence, Element>\<close> with \<^verbatim>\<open>_base\<close> (here \<open>seq_base\<close>)
  and \<^verbatim>\<open>_transform\<close> (here \<open>seq_transform\<close>).
\<close>

record ('sq, 'a, 'e) LazyMapSequence =
  seq_base :: 'sq
  seq_transform :: "'a \<Rightarrow> 'e"

text \<open>
  \<^verbatim>\<open>public mutating func next() -> Element? { return _base.next().map(_transform) }\<close>

  \<^verbatim>\<open>Base\<close> is any type conforming to \<^verbatim>\<open>IteratorProtocol\<close>: its mutating \<^verbatim>\<open>next()\<close> is the
  parameter \<open>base_next\<close>, from the state of the base iterator to the element returned
  and the state after the call. The call mutates \<^verbatim>\<open>_base\<close> inside \<^verbatim>\<open>self\<close>.
\<close>

definition LazyMapIterator_next ::
  "('b \<Rightarrow> 'a option \<times> 'b) \<Rightarrow> ('b, 'a, 'e) LazyMapIterator
    \<Rightarrow> 'e option \<times> ('b, 'a, 'e) LazyMapIterator" where
  "LazyMapIterator_next base_next self =
     (case base_next (iter_base self) of
        (element, base') \<Rightarrow> (Optional_map (iter_transform self) element, self\<lparr>iter_base := base'\<rparr>))"

text \<open>
  \<^verbatim>\<open>public func makeIterator() -> LazyMapIterator<Base.Iterator, Element> {
    return LazyMapIterator(_base: _base.makeIterator(), _transform: _transform) }\<close>

  \<^verbatim>\<open>makeIterator()\<close> of the base sequence is the parameter \<open>base_makeIterator\<close>.
\<close>

definition LazyMapSequence_makeIterator ::
  "('sq \<Rightarrow> 'b) \<Rightarrow> ('sq, 'a, 'e) LazyMapSequence \<Rightarrow> ('b, 'a, 'e) LazyMapIterator" where
  "LazyMapSequence_makeIterator base_makeIterator self =
     \<lparr>iter_base = base_makeIterator (seq_base self), iter_transform = seq_transform self\<rparr>"

text \<open>
  What an iterator produces. \<open>calls nxt n s\<close> lists the results of \<open>n\<close> successive calls
  of \<^verbatim>\<open>next()\<close> from the state \<open>s\<close>, \<^verbatim>\<open>nil\<close> results included. \<open>elements nxt n s\<close> is what
  a loop \<^verbatim>\<open>while let x = it.next()\<close> receives in at most \<open>n\<close> calls: the elements up
  to the first \<^verbatim>\<open>nil\<close>.
\<close>

fun calls :: "('s \<Rightarrow> 'r \<times> 's) \<Rightarrow> nat \<Rightarrow> 's \<Rightarrow> 'r list" where
  "calls nxt 0 s = []"
| "calls nxt (Suc n) s = (case nxt s of (r, s') \<Rightarrow> r # calls nxt n s')"

fun elements :: "('s \<Rightarrow> 'a option \<times> 's) \<Rightarrow> nat \<Rightarrow> 's \<Rightarrow> 'a list" where
  "elements nxt 0 s = []"
| "elements nxt (Suc n) s =
     (case nxt s of (None, s') \<Rightarrow> [] | (Some x, s') \<Rightarrow> x # elements nxt n s')"

section \<open>Properties of the constraints\<close>

text \<open>
  The switch of \<open>getClassification\<close> agrees with the table of section 4.1 on every
  kind but \<open>Conjunction\<close>.
\<close>

lemma getClassification_table_extent:
  "(getClassification c = classify_spec (Kind c)) = (Kind c \<noteq> ConstraintKind.Conjunction)"
  by (cases "Kind c") (simp_all add: getClassification_def classify_spec_def)

text \<open>
  C1. The claim: \<open>getClassification\<close> is a total function of the kind that matches the
  table of section 4.1, in which \<open>Conjunction\<close> classifies as \<open>Conjunction\<close>. The code at
  a conjunction constraint, as the group constructor builds it: the case
  \<^verbatim>\<open>ConstraintKind::Conjunction\<close> of the switch returns
  \<^verbatim>\<open>ConstraintClassification::Disjunction\<close>, where the table has \<open>Conjunction\<close>.
\<close>

theorem getClassification_Conjunction_is_Disjunction:
  "Constraint_group ConstraintKind.Conjunction cs l =
     Inr \<lparr>Kind = ConstraintKind.Conjunction, payload = Nested cs, Locator = l\<rparr> \<and>
   getClassification \<lparr>Kind = ConstraintKind.Conjunction, payload = Nested cs, Locator = l\<rparr> =
     ConstraintClassification.Disjunction \<and>
   classify_spec ConstraintKind.Conjunction = ConstraintClassification.Conjunction"
  by (simp add: Constraint_group_def getClassification_def classify_spec_def)

text \<open>
  On a conjunction or a disjunction the assertion of \<open>getSecondType\<close> fails, whatever the
  union holds.
\<close>

lemma getSecondType_group_asserts:
  "getSecondType \<lparr>Kind = ConstraintKind.Conjunction, payload = p, Locator = l\<rparr> = Inl AssertionFailed \<and>
   getSecondType \<lparr>Kind = ConstraintKind.Disjunction, payload = p, Locator = l\<rparr> = Inl AssertionFailed"
  by (simp add: getSecondType_def getKind_def)

text \<open>
  C2. The claim: \<open>getSecondType\<close> fails its assertion on every constraint whose kind has
  no second type, a \<open>BindOverload\<close> constraint in particular. The code at an
  overload-binding constraint: the assertion only excludes \<open>Disjunction\<close> and
  \<open>Conjunction\<close>, so it passes, and the function reads \<^verbatim>\<open>Types.Second\<close> while the
  active member of the union is \<^verbatim>\<open>Overload\<close>. \<open>getFirstType\<close>, next to it, has a branch
  for \<open>BindOverload\<close> and returns the type.
\<close>

theorem getSecondType_BindOverload_passes_assertion:
  "getSecondType (Constraint_overload t c l) = Inl InactiveUnionMember \<and>
   getSecondType (Constraint_overload t c l) \<noteq> Inl AssertionFailed \<and>
   getFirstType (Constraint_overload t c l) = Inr t"
  by (simp add: Constraint_overload_def getSecondType_def getFirstType_def getKind_def
      Types_Second_def Overload_First_def)

text \<open>
  C3. Creating a conjunction or a disjunction through \<open>createConjunction\<close> or
  \<open>createDisjunction\<close> with an empty list of children fails with an assertion failure:
  it does not succeed, so no group constraint without children comes out of it.
\<close>

theorem create_group_empty_fails:
  "createConjunction [] l = Inl AssertionFailed \<and>
   createDisjunction [] l = Inl AssertionFailed \<and>
   (\<forall>c. createConjunction [] l \<noteq> Inr c) \<and>
   (\<forall>c. createDisjunction [] l \<noteq> Inr c)"
  by (simp add: createConjunction_def createDisjunction_def)

text \<open>
  C4. For every non-empty list \<open>cs\<close> of child constraints and every group kind, the
  group constraint constructed over \<open>cs\<close> is built without a failure,
  \<open>getNestedConstraints\<close> returns exactly \<open>cs\<close>, in the same order, and \<open>getKind\<close> returns
  the kind it was constructed with.
\<close>

theorem group_constructor_round_trip:
  assumes "cs \<noteq> []"
    and "kind = ConstraintKind.Conjunction \<or> kind = ConstraintKind.Disjunction"
  shows "Constraint_group kind cs l = Inr \<lparr>Kind = kind, payload = Nested cs, Locator = l\<rparr> \<and>
         getNestedConstraints \<lparr>Kind = kind, payload = Nested cs, Locator = l\<rparr> = Inr cs \<and>
         getKind \<lparr>Kind = kind, payload = Nested cs, Locator = l\<rparr> = kind"
  using assms(2)
  by (simp add: Constraint_group_def getNestedConstraints_def getKind_def Nested_view_def)

text \<open>
  The same at a disjunction over two children.
\<close>

theorem group_constructor_round_trip_witness:
  "[Some 3, Some 4] \<noteq> ([] :: ptr list) \<and>
   (Constraint_group ConstraintKind.Disjunction [Some 3, Some 4] (Some 7)
      :: failure + (nat, nat, nat) Constraint) =
     Inr \<lparr>Kind = ConstraintKind.Disjunction, payload = Nested [Some 3, Some 4], Locator = Some 7\<rparr> \<and>
   getNestedConstraints (\<lparr>Kind = ConstraintKind.Disjunction, payload = Nested [Some 3, Some 4],
      Locator = Some 7\<rparr> :: (nat, nat, nat) Constraint) = Inr [Some 3, Some 4] \<and>
   getKind (\<lparr>Kind = ConstraintKind.Disjunction, payload = Nested [Some 3, Some 4],
      Locator = Some 7\<rparr> :: (nat, nat, nat) Constraint) = ConstraintKind.Disjunction"
proof -
  have nonempty: "[Some 3, Some 4] \<noteq> ([] :: ptr list)"
    by simp
  have group: "ConstraintKind.Disjunction = ConstraintKind.Conjunction \<or>
      ConstraintKind.Disjunction = ConstraintKind.Disjunction"
    by simp
  from group_constructor_round_trip [OF nonempty group, of "Some 7"] nonempty
  show ?thesis
    by simp
qed

text \<open>
  C5. \<open>getMember\<close> fails its assertion on every constraint whose kind is neither
  \<open>ValueMember\<close> nor \<open>TypeMember\<close> (a \<open>Bind\<close> constraint, for one), and returns the
  stored member name when the kind is \<open>ValueMember\<close> or \<open>TypeMember\<close>; the stored member
  name is the field \<^verbatim>\<open>Member\<close> of the union member \<^verbatim>\<open>Types\<close>, which such a constraint
  holds.
\<close>

theorem getMember_contract:
  "(Kind c \<noteq> ValueMember \<and> Kind c \<noteq> TypeMember \<longrightarrow> getMember c = Inl AssertionFailed) \<and>
   ((Kind c = ValueMember \<or> Kind c = TypeMember) \<and> payload c = Types first second member
      \<longrightarrow> getMember c = Inr member)"
  by (simp add: getMember_def Types_Member_def)

text \<open>
  The same at a \<open>Bind\<close>, a \<open>ValueMember\<close> and a \<open>TypeMember\<close> constraint.
\<close>

theorem getMember_contract_witness:
  "getMember (\<lparr>Kind = Bind, payload = Types 4 5 6, Locator = Some 7\<rparr> :: (nat, nat, nat) Constraint)
     = Inl AssertionFailed \<and>
   getMember (\<lparr>Kind = ValueMember, payload = Types 4 5 6, Locator = Some 7\<rparr>
     :: (nat, nat, nat) Constraint) = Inr 6 \<and>
   getMember (\<lparr>Kind = TypeMember, payload = Types 4 5 6, Locator = Some 7\<rparr>
     :: (nat, nat, nat) Constraint) = Inr 6"
  using
    getMember_contract [of "\<lparr>Kind = Bind, payload = Types 4 5 6, Locator = Some 7\<rparr>
      :: (nat, nat, nat) Constraint" 4 5 6]
    getMember_contract [of "\<lparr>Kind = ValueMember, payload = Types 4 5 6, Locator = Some 7\<rparr>
      :: (nat, nat, nat) Constraint" 4 5 6]
    getMember_contract [of "\<lparr>Kind = TypeMember, payload = Types 4 5 6, Locator = Some 7\<rparr>
      :: (nat, nat, nat) Constraint" 4 5 6]
  by simp

text \<open>
  C6. The overload-binding constraint constructed from a type \<open>t\<close>, an overload choice
  \<open>c\<close> and a locator \<open>l\<close> has kind \<open>BindOverload\<close>; \<open>getFirstType\<close> returns \<open>t\<close>,
  \<open>getOverloadChoice\<close> returns \<open>c\<close> and \<open>getLocator\<close> returns \<open>l\<close>.
\<close>

theorem overload_binding_round_trip:
  "getKind (Constraint_overload t c l) = BindOverload \<and>
   getFirstType (Constraint_overload t c l) = Inr t \<and>
   getOverloadChoice (Constraint_overload t c l) = Inr c \<and>
   getLocator (Constraint_overload t c l) = l"
  by (simp add: Constraint_overload_def getKind_def getFirstType_def getOverloadChoice_def
      getLocator_def Overload_First_def Overload_Choice_def)

text \<open>
  C7, as stated, fails: the claim has every construction with a null locator fail,
  and \<open>getLocator\<close> never return null. The overload-binding constructor has an empty
  body and the group constructor asserts on the kind alone: both build the constraint
  from a null locator, and \<open>getLocator\<close> returns null.
\<close>

theorem null_locator_is_accepted:
  "getLocator (Constraint_overload (4::nat) (5::nat) None :: (nat, nat, nat) Constraint) = None \<and>
   (Constraint_group ConstraintKind.Disjunction [Some 3] None :: failure + (nat, nat, nat) Constraint) =
     Inr \<lparr>Kind = ConstraintKind.Disjunction, payload = Nested [Some 3], Locator = None\<rparr> \<and>
   getLocator (\<lparr>Kind = ConstraintKind.Disjunction, payload = Nested [Some 3], Locator = None\<rparr>
     :: (nat, nat, nat) Constraint) = None"
  by (simp add: Constraint_overload_def Constraint_group_def getLocator_def)

text \<open>
  C7, amended. A constraint carries the locator it was constructed with: for the
  overload-binding constructor and for the group constructor, \<open>getLocator\<close> returns
  exactly the locator passed to the constructor, so it is non-null exactly when that
  locator was non-null.
\<close>

theorem getLocator_returns_constructor_locator:
  "getLocator (Constraint_overload t c l :: ('ty, 'id, 'oc) Constraint) = l \<and>
   (getLocator (Constraint_overload t c l :: ('ty, 'id, 'oc) Constraint) \<noteq> None) = (l \<noteq> None) \<and>
   (Constraint_group kind cs l = Inr (g :: ('ty, 'id, 'oc) Constraint) \<longrightarrow>
      getLocator g = l \<and> (getLocator g \<noteq> None) = (l \<noteq> None))"
  by (auto simp add: Constraint_overload_def Constraint_group_def getLocator_def split: if_splits)

text \<open>
  The same at an overload-binding constraint and a conjunction with the locator at
  address 7.
\<close>

theorem getLocator_returns_constructor_locator_witness:
  "getLocator (Constraint_overload (4::nat) (5::nat) (Some 7) :: (nat, nat, nat) Constraint) = Some 7 \<and>
   getLocator (\<lparr>Kind = ConstraintKind.Conjunction, payload = Nested [Some 3], Locator = Some 7\<rparr>
     :: (nat, nat, nat) Constraint) = Some 7"
proof -
  have built: "(Constraint_group ConstraintKind.Conjunction [Some 3] (Some 7)
      :: failure + (nat, nat, nat) Constraint) =
      Inr \<lparr>Kind = ConstraintKind.Conjunction, payload = Nested [Some 3], Locator = Some 7\<rparr>"
    by (simp add: Constraint_group_def)
  from getLocator_returns_constructor_locator [of "4::nat" "5::nat" "Some 7"
      ConstraintKind.Conjunction "[Some 3]"
      "\<lparr>Kind = ConstraintKind.Conjunction, payload = Nested [Some 3], Locator = Some 7\<rparr>
        :: (nat, nat, nat) Constraint"]
    built
  show ?thesis
    by simp
qed

text \<open>
  What each call returns is the value of the accessor as a function of the object, and
  the object after the call is the object before it.
\<close>

lemma run_getKind_call: "getKind_call c = (getKind c, c)"
  by (simp add: getKind_call_def getKind_def)

lemma run_getClassification_call:
  "getClassification_call c = (getClassification c, c)"
  by (simp add: getClassification_call_def getClassification_def)

lemma run_not_a_group_call:
  "not_a_group_call c =
     (getKind c \<noteq> ConstraintKind.Disjunction \<and> getKind c \<noteq> ConstraintKind.Conjunction, c)"
  by (simp add: not_a_group_call_def run_getKind_call)

lemma run_getFirstType_call: "getFirstType_call c = (getFirstType c, c)"
  by (simp add: getFirstType_call_def getFirstType_def run_not_a_group_call run_getKind_call)

lemma run_getSecondType_call: "getSecondType_call c = (getSecondType c, c)"
  by (simp add: getSecondType_call_def getSecondType_def run_not_a_group_call)

lemma run_getMember_call: "getMember_call c = (getMember c, c)"
  by (simp add: getMember_call_def getMember_def)

lemma run_getNestedConstraints_call:
  "getNestedConstraints_call c = (getNestedConstraints c, c)"
  by (simp add: getNestedConstraints_call_def getNestedConstraints_def)

lemma run_getOverloadChoice_call:
  "getOverloadChoice_call c = (getOverloadChoice c, c)"
  by (simp add: getOverloadChoice_call_def getOverloadChoice_def)

lemma run_getLocator_call: "getLocator_call c = (getLocator c, c)"
  by (simp add: getLocator_call_def getLocator_def)

text \<open>
  C8. Constraints are not mutated after construction: a call of any of the accessors
  \<open>getKind\<close>, \<open>getClassification\<close>, \<open>getFirstType\<close>, \<open>getSecondType\<close>, \<open>getMember\<close>,
  \<open>getNestedConstraints\<close>, \<open>getOverloadChoice\<close> and \<open>getLocator\<close> leaves the constraint as
  it was, and a second call of the same accessor on the same constraint returns what
  the first returned: two calls in a row return the value of the accessor twice and
  leave the constraint unchanged.
\<close>

theorem accessors_leave_constraint_unchanged:
  "getKind_call c = (getKind c, c) \<and>
   getClassification_call c = (getClassification c, c) \<and>
   getFirstType_call c = (getFirstType c, c) \<and>
   getSecondType_call c = (getSecondType c, c) \<and>
   getMember_call c = (getMember c, c) \<and>
   getNestedConstraints_call c = (getNestedConstraints c, c) \<and>
   getOverloadChoice_call c = (getOverloadChoice c, c) \<and>
   getLocator_call c = (getLocator c, c) \<and>
   twice getKind_call c = ((getKind c, getKind c), c) \<and>
   twice getClassification_call c = ((getClassification c, getClassification c), c) \<and>
   twice getFirstType_call c = ((getFirstType c, getFirstType c), c) \<and>
   twice getSecondType_call c = ((getSecondType c, getSecondType c), c) \<and>
   twice getMember_call c = ((getMember c, getMember c), c) \<and>
   twice getNestedConstraints_call c =
     ((getNestedConstraints c, getNestedConstraints c), c) \<and>
   twice getOverloadChoice_call c = ((getOverloadChoice c, getOverloadChoice c), c) \<and>
   twice getLocator_call c = ((getLocator c, getLocator c), c)"
  by (simp add: twice_def run_getKind_call run_getClassification_call run_getFirstType_call
      run_getSecondType_call run_getMember_call run_getNestedConstraints_call
      run_getOverloadChoice_call run_getLocator_call)

text \<open>
  C9. \<open>hasMember kind\<close> is true exactly when \<open>kind\<close> is \<open>ValueMember\<close> or \<open>TypeMember\<close>
  and false for each of the fourteen other kinds; these are precisely the kinds on
  which the assertion of \<open>getMember\<close> holds.
\<close>

theorem hasMember_characterises_getMember:
  "hasMember kind = (kind \<in> {ValueMember, TypeMember}) \<and>
   (\<not> hasMember kind) =
     (kind \<in> {Bind, Equal, TrivialSubtype, Subtype, Conversion, Construction, ConformsTo,
               ApplicableFunction, BindOverload, Archetype, Class, DynamicLookupValue,
               ConstraintKind.Conjunction, ConstraintKind.Disjunction}) \<and>
   (getMember c = Inl AssertionFailed) = (\<not> hasMember (Kind c))"
proof -
  have "getMember c \<noteq> Inl AssertionFailed" if "hasMember (Kind c)"
    using that by (cases "payload c") (simp_all add: getMember_def hasMember_def Types_Member_def)
  moreover have "getMember c = Inl AssertionFailed" if "\<not> hasMember (Kind c)"
    using that by (simp add: getMember_def hasMember_def)
  moreover have "hasMember kind = (kind \<in> {ValueMember, TypeMember})"
    by (simp add: hasMember_def)
  moreover have "(\<not> hasMember kind) =
     (kind \<in> {Bind, Equal, TrivialSubtype, Subtype, Conversion, Construction, ConformsTo,
               ApplicableFunction, BindOverload, Archetype, Class, DynamicLookupValue,
               ConstraintKind.Conjunction, ConstraintKind.Disjunction})"
    by (cases kind) (simp_all add: hasMember_def)
  ultimately show ?thesis
    by blast
qed


section \<open>Properties of the lazy map\<close>

text \<open>
  One call of \<^verbatim>\<open>next()\<close>, in terms of the call of the base iterator's \<^verbatim>\<open>next()\<close>.
\<close>

lemma LazyMapIterator_next_result:
  "LazyMapIterator_next base_next it =
     (map_option (iter_transform it) (fst (base_next (iter_base it))),
      it\<lparr>iter_base := snd (base_next (iter_base it))\<rparr>)"
  by (auto simp add: LazyMapIterator_next_def Optional_map_def split: prod.split option.split)

text \<open>
  Any number of calls: the results are the results of the base iterator, each passed
  through the transform, and so are the elements up to the first \<^verbatim>\<open>nil\<close>.
\<close>

lemma calls_LazyMapIterator_next:
  "calls (LazyMapIterator_next base_next) n it =
     map (map_option (iter_transform it)) (calls base_next n (iter_base it))"
proof (induction n arbitrary: it)
  case 0
  show ?case by simp
next
  case (Suc n)
  obtain r b where step: "base_next (iter_base it) = (r, b)"
    by (cases "base_next (iter_base it)")
  have nxt: "LazyMapIterator_next base_next it =
      (map_option (iter_transform it) r, it\<lparr>iter_base := b\<rparr>)"
    using step by (simp add: LazyMapIterator_next_result)
  have "calls (LazyMapIterator_next base_next) (Suc n) it =
      map_option (iter_transform it) r #
        calls (LazyMapIterator_next base_next) n (it\<lparr>iter_base := b\<rparr>)"
    by (simp add: nxt)
  also have "\<dots> = map_option (iter_transform it) r #
      map (map_option (iter_transform it)) (calls base_next n b)"
    by (simp add: Suc.IH)
  also have "\<dots> = map (map_option (iter_transform it)) (calls base_next (Suc n) (iter_base it))"
    by (simp add: step)
  finally show ?case .
qed

lemma elements_LazyMapIterator_next:
  "elements (LazyMapIterator_next base_next) n it =
     map (iter_transform it) (elements base_next n (iter_base it))"
proof (induction n arbitrary: it)
  case 0
  show ?case by simp
next
  case (Suc n)
  obtain r b where step: "base_next (iter_base it) = (r, b)"
    by (cases "base_next (iter_base it)")
  have nxt: "LazyMapIterator_next base_next it =
      (map_option (iter_transform it) r, it\<lparr>iter_base := b\<rparr>)"
    using step by (simp add: LazyMapIterator_next_result)
  show ?case
  proof (cases r)
    case None
    then show ?thesis
      by (simp add: nxt step)
  next
    case (Some x)
    have "elements (LazyMapIterator_next base_next) (Suc n) it =
        iter_transform it x # elements (LazyMapIterator_next base_next) n (it\<lparr>iter_base := b\<rparr>)"
      by (simp add: nxt Some)
    also have "\<dots> = iter_transform it x # map (iter_transform it) (elements base_next n b)"
      by (simp add: Suc.IH)
    also have "\<dots> = map (iter_transform it) (elements base_next (Suc n) (iter_base it))"
      by (simp add: step Some)
    finally show ?thesis .
  qed
qed

text \<open>
  C10. For every base iterator and transform, \<^verbatim>\<open>LazyMapIterator.next()\<close> returns
  \<^verbatim>\<open>nil\<close> exactly when the base iterator's \<^verbatim>\<open>next()\<close> does, and otherwise the transform
  applied to the element the base produced; it advances the base iterator by that one
  call and keeps the transform. So the iterator made by
  \<^verbatim>\<open>LazyMapSequence.makeIterator()\<close> produces, call by call, the transformed results
  of the base sequence's iterator, in the same order and with \<^verbatim>\<open>nil\<close> at the same
  calls: it yields \<open>f x\<close> for each element \<open>x\<close> of the base, and nothing more.
\<close>

theorem LazyMapIterator_yields_transformed_elements:
  "(fst (LazyMapIterator_next base_next it) = None) = (fst (base_next (iter_base it)) = None) \<and>
   fst (LazyMapIterator_next base_next it) =
     (case fst (base_next (iter_base it)) of None \<Rightarrow> None
      | Some x \<Rightarrow> Some (iter_transform it x)) \<and>
   iter_base (snd (LazyMapIterator_next base_next it)) = snd (base_next (iter_base it)) \<and>
   iter_transform (snd (LazyMapIterator_next base_next it)) = iter_transform it \<and>
   calls (LazyMapIterator_next base_next) n (LazyMapSequence_makeIterator base_makeIterator s) =
     map (map_option (seq_transform s)) (calls base_next n (base_makeIterator (seq_base s))) \<and>
   elements (LazyMapIterator_next base_next) n (LazyMapSequence_makeIterator base_makeIterator s) =
     map (seq_transform s) (elements base_next n (base_makeIterator (seq_base s)))"
proof -
  have result: "fst (LazyMapIterator_next base_next it) =
      map_option (iter_transform it) (fst (base_next (iter_base it)))"
    and state: "snd (LazyMapIterator_next base_next it) =
      it\<lparr>iter_base := snd (base_next (iter_base it))\<rparr>"
    by (simp_all add: LazyMapIterator_next_result [of base_next it])
  have made: "iter_base (LazyMapSequence_makeIterator base_makeIterator s) =
      base_makeIterator (seq_base s)"
    "iter_transform (LazyMapSequence_makeIterator base_makeIterator s) = seq_transform s"
    by (simp_all add: LazyMapSequence_makeIterator_def)
  show ?thesis
    by (cases "fst (base_next (iter_base it))")
      (simp_all add: result state made calls_LazyMapIterator_next [of base_next]
        elements_LazyMapIterator_next [of base_next])
qed

end
